theory Spec2Isabelle
  imports Main
begin

section \<open>The NATS subscriber of watermill-nats\<close>

text \<open>
  An embedding of \<^verbatim>\<open>pkg/nats/subscriber.go\<close>. Every function of the file is a HOL
  function of the same name. What a function does to the outside (the logger, the
  wait-groups, the channels, the goroutines it starts, the NATS client) is recorded as
  a list of events, in program order; what the outside answers (the result of a call
  into the NATS client, the case a \<^verbatim>\<open>select\<close> takes) is read from a record that the
  function receives as its first arguments. A function of the source that can stop in
  a run-time panic returns \<open>Panic\<close> here; \<^verbatim>\<open>processMessage\<close>, which returns nothing,
  ends its events with \<open>RuntimePanic\<close> then. The context argument of \<^verbatim>\<open>Subscribe\<close>
  is only handed on to the goroutines and handlers, whose waking is part of the
  environment, so it is no argument here.

  \<^verbatim>\<open>time.Duration\<close> (an int64 count of nanoseconds) and Go's \<^verbatim>\<open>int\<close> are modelled
  as \<open>int\<close>, \<^verbatim>\<open>uint64\<close> as \<open>nat\<close>: the file only compares these numbers with
  constants and with each other and counts a loop upwards to a bound, so no operation
  on them can wrap around. The log fields passed to the logger are left out of the log
  events; the read-write lock \<^verbatim>\<open>subsLock\<close> has no counterpart in a sequential run.
\<close>

subsection \<open>Data\<close>

type_synonym Duration = int

definition Second :: Duration where
  "Second = 1000000000"

text \<open>Errors are built by \<^verbatim>\<open>errors.New\<close> and \<^verbatim>\<open>errors.Wrap\<close>; an error of the NATS
  client is some value of the same type.\<close>

datatype error = errors_New string | errors_Wrap error string

text \<open>The Watermill message and the NATS frame (\<^verbatim>\<open>nats.Msg\<close>), with the fields the
  subscriber reads.\<close>

record Message =
  UUID :: string
  Payload :: string

record Msg =
  Subject :: string
  Reply :: string
  Data :: string

record MsgMetadata =
  NumDelivered :: nat

text \<open>The interface \<^verbatim>\<open>Delay\<close> has the one method \<^verbatim>\<open>WaitTime\<close>; an interface value is
  that method, and \<open>None\<close> is the nil interface.\<close>

type_synonym Delay = "nat \<Rightarrow> Duration"

text \<open>Modelled from the spec: the constant \<^verbatim>\<open>StopTime\<close> is declared in a file of the
  package that is not part of the sources at hand. The spec calls it a sentinel that is
  neither zero (negative-ack immediately) nor a positive duration (delayed redelivery);
  the trace message of \<^verbatim>\<open>processMessage\<close> at the place where it is tested,
  "Message Termed via -1 NakDelay calculation", gives its value.\<close>

definition StopTime :: Duration where
  "StopTime = - 1"

record SubjectDetail =
  Primary :: string
  AllSubjects :: "string list"

type_synonym SubjectCalculator = "string \<Rightarrow> SubjectDetail"

text \<open>Modelled from the spec: \<^verbatim>\<open>DefaultSubjectCalculator\<close> is declared in a file of the
  package that is not part of the sources at hand. The spec gives its rule: the primary
  subject is the topic followed by \<^verbatim>\<open>.*\<close>, and the list of all subjects holds the
  primary subject only.\<close>

definition DefaultSubjectCalculator :: SubjectCalculator where
  "DefaultSubjectCalculator topic =
     \<lparr>Primary = topic @ ''.*'', AllSubjects = [topic @ ''.*'']\<rparr>"

text \<open>An \<^verbatim>\<open>Unmarshaler\<close> is either the package's own \<^verbatim>\<open>NATSMarshaler\<close>, whose method
  \<^verbatim>\<open>Unmarshal\<close> is declared outside the sources at hand and is therefore supplied by
  the environment, or an implementation of the caller, given by its method.\<close>

datatype Unmarshaler = NATSMarshaler | UserUnmarshaler "Msg \<Rightarrow> error + Message"

record JetStreamConfig =
  Enabled :: bool
  AutoProvision :: bool
  ConnectOptions :: "string list"

record SubscriberSubscriptionConfig =
  Unmarshaler :: "Unmarshaler option"
  QueueGroup :: string
  SubscribersCount :: int
  AckWaitTimeout :: Duration
  CloseTimeout :: Duration
  SubscribeTimeout :: Duration
  SubjectCalculator :: "SubjectCalculator option"
  AckSync :: bool
  NakDelay :: "Delay option"
  JetStream :: JetStreamConfig

text \<open>\<^verbatim>\<open>SubscriberConfig\<close> has the ten fields above, the broker's URL and the
  connection options.\<close>

record SubscriberConfig = SubscriberSubscriptionConfig +
  URL :: string
  NatsOptions :: "string list"

datatype Conn = NatsConn string

datatype JetStreamContext = JetStreamContext Conn

datatype Connection = CoreConnection Conn | jsConnection Conn JetStreamContext JetStreamConfig

datatype topicInterpreter = newTopicInterpreter JetStreamContext "SubjectCalculator option"

datatype LoggerAdapter = NopLogger | StdLogger

datatype Subscription = Subscription nat

text \<open>The struct \<^verbatim>\<open>Subscriber\<close>. The channel \<^verbatim>\<open>closing\<close> carries no value: its state is
  whether it has been closed. A wait-group is its counter.\<close>

record Subscriber =
  conn :: Connection
  logger :: LoggerAdapter
  config :: SubscriberSubscriptionConfig
  closed :: bool
  closing :: bool
  outputsWg :: int
  topicInterpreter :: "topicInterpreter option"

subsection \<open>The environment\<close>

text \<open>The answers of the NATS client and of the Watermill helpers to the calls of the
  subscriber: \<^verbatim>\<open>nats.Connect\<close>, \<^verbatim>\<open>conn.JetStream\<close>, the method \<^verbatim>\<open>Unmarshal\<close> of
  \<^verbatim>\<open>NATSMarshaler\<close>, \<^verbatim>\<open>topicInterpreter.ensureStream\<close>, \<^verbatim>\<open>QueueSubscribe\<close> (by the
  number of the subscriber inside one \<^verbatim>\<open>Subscribe\<close> call), \<^verbatim>\<open>Unsubscribe\<close>,
  \<^verbatim>\<open>WaitGroupTimeout\<close> (true when the timeout elapsed first) and \<^verbatim>\<open>Drain\<close>.\<close>

record world =
  Connect_result :: "error + Conn"
  JetStream_result :: "error + JetStreamContext"
  NATSMarshaler_Unmarshal :: "Msg \<Rightarrow> error + Message"
  ensureStream_result :: "string \<Rightarrow> error option"
  QueueSubscribe_result :: "int \<Rightarrow> error + Subscription"
  Unsubscribe_result :: "Subscription \<Rightarrow> error option"
  WaitGroupTimeout_result :: bool
  Drain_result :: "error option"

subsection \<open>Configuration: defaults, validation, construction\<close>

definition GetSubscriberSubscriptionConfig ::
    "'a SubscriberConfig_scheme \<Rightarrow> SubscriberSubscriptionConfig" where
  "GetSubscriberSubscriptionConfig c =
     \<lparr>Unmarshaler = Unmarshaler c,
      QueueGroup = QueueGroup c,
      SubscribersCount = SubscribersCount c,
      AckWaitTimeout = AckWaitTimeout c,
      CloseTimeout = CloseTimeout c,
      SubscribeTimeout = SubscribeTimeout c,
      SubjectCalculator = SubjectCalculator c,
      AckSync = AckSync c,
      NakDelay = NakDelay c,
      JetStream = JetStream c\<rparr>"

definition setDefaults :: "SubscriberSubscriptionConfig \<Rightarrow> SubscriberSubscriptionConfig" where
  "setDefaults c0 =
     (let c1 = (if SubscribersCount c0 \<le> 0 then c0\<lparr>SubscribersCount := 1\<rparr> else c0);
          c2 = (if CloseTimeout c1 \<le> 0 then c1\<lparr>CloseTimeout := Second * 30\<rparr> else c1);
          c3 = (if AckWaitTimeout c2 \<le> 0 then c2\<lparr>AckWaitTimeout := Second * 30\<rparr> else c2);
          c4 = (if SubscribeTimeout c3 \<le> 0 then c3\<lparr>SubscribeTimeout := Second * 30\<rparr> else c3);
          c5 = (if Unmarshaler c4 = None then c4\<lparr>Unmarshaler := Some NATSMarshaler\<rparr> else c4);
          c6 = (if SubjectCalculator c5 = None
                then c5\<lparr>SubjectCalculator := Some DefaultSubjectCalculator\<rparr> else c5)
      in c6)"

definition Validate :: "SubscriberSubscriptionConfig \<Rightarrow> error option" where
  "Validate c =
     (if Unmarshaler c = None then
        Some (errors_New ''SubscriberConfig.Unmarshaler is missing'')
      else if QueueGroup c = [] \<and> SubscribersCount c > 1 then
        Some (errors_New
          (''to set SubscriberConfig.SubscribersCount '' @
           ''you need to also set SubscriberConfig.QueueGroup, '' @
           ''in other case you will receive duplicated messages''))
      else if SubjectCalculator c = None then
        Some (errors_New ''SubscriberSubscriptionConfig.SubjectCalculator is required.'')
      else None)"

definition NewSubscriberWithNatsConn ::
    "world \<Rightarrow> Conn \<Rightarrow> SubscriberSubscriptionConfig \<Rightarrow> LoggerAdapter option
       \<Rightarrow> error + Subscriber" where
  "NewSubscriberWithNatsConn w c cfg lg =
     (let cfg' = setDefaults cfg in
      case Validate cfg' of
        Some err \<Rightarrow> Inl err
      | None \<Rightarrow>
          (let lg' = (case lg of None \<Rightarrow> NopLogger | Some l \<Rightarrow> l) in
           if Enabled (JetStream cfg') then
             (case JetStream_result w of
                Inl err \<Rightarrow> Inl err
              | Inr js \<Rightarrow>
                  Inr \<lparr>conn = jsConnection c js (JetStream cfg'),
                       logger = lg',
                       config = cfg',
                       closed = False,
                       closing = False,
                       outputsWg = 0,
                       topicInterpreter =
                         Some (newTopicInterpreter js (SubjectCalculator cfg'))\<rparr>)
           else
             Inr \<lparr>conn = CoreConnection c,
                  logger = lg',
                  config = cfg',
                  closed = False,
                  closing = False,
                  outputsWg = 0,
                  topicInterpreter = None\<rparr>))"

definition NewSubscriber ::
    "world \<Rightarrow> 'a SubscriberConfig_scheme \<Rightarrow> LoggerAdapter option \<Rightarrow> error + Subscriber" where
  "NewSubscriber w cfg lg =
     (case Connect_result w of
        Inl err \<Rightarrow> Inl (errors_Wrap err ''cannot connect to NATS'')
      | Inr c \<Rightarrow> NewSubscriberWithNatsConn w c (GetSubscriberSubscriptionConfig cfg) lg)"

subsection \<open>Events and results\<close>

text \<open>A function of the source returns a value, returns an error, or stops in a run-time
  panic.\<close>

datatype 'a result = Ok 'a | Err error | Panic string

datatype level = Trace | Debug | Info

datatype task = Watcher Subscription | Finisher

datatype channel = Output

text \<open>What a function does to the outside, one event per statement with an effect: a
  call of the logger; the context and the timer of one message; the send on the delivery
  channel; the calls on the frame (\<^verbatim>\<open>AckSync\<close>, \<^verbatim>\<open>Ack\<close>, \<^verbatim>\<open>Term\<close>, \<^verbatim>\<open>NakWithDelay\<close>,
  \<^verbatim>\<open>Nak\<close>, \<^verbatim>\<open>Metadata\<close>); the operations on the two wait-groups and on the channels;
  the calls on the connection and on a native subscription; the start of a goroutine.\<close>

datatype event =
    Log level string
  | LogError string error
  | SetContext
  | CancelCtx
  | NewTimer Duration
  | TimerStop
  | Send Message
  | MsgAckSync
  | MsgAck
  | MsgTerm
  | MsgNakWithDelay Duration
  | MsgNak
  | MsgMetadata
  | RuntimePanic string
  | MakeOutput
  | CloseOutput
  | OutputsWgAdd
  | OutputsWgDone
  | OutputWgAdd
  | OutputWgDone
  | OutputWgWait
  | AwaitClosingOrDone
  | EnsureStream string
  | QueueSubscribe string string int
  | Unsubscribe Subscription
  | Go task
  | CloseClosing
  | WaitGroupTimeout Duration
  | Drain

text \<open>The transport calls of a trace (ack, nak and term frames sent to the broker), the
  sends on the delivery channel, and the events that call \<^verbatim>\<open>Unsubscribe\<close>, call
  \<^verbatim>\<open>QueueSubscribe\<close> or start a goroutine.\<close>

fun is_transport :: "event \<Rightarrow> bool" where
  "is_transport MsgAckSync = True"
| "is_transport MsgAck = True"
| "is_transport MsgTerm = True"
| "is_transport (MsgNakWithDelay d) = True"
| "is_transport MsgNak = True"
| "is_transport e = False"

definition transport_calls :: "event list \<Rightarrow> event list" where
  "transport_calls tr = filter is_transport tr"

fun is_send :: "event \<Rightarrow> bool" where
  "is_send (Send msg) = True"
| "is_send e = False"

definition sends :: "event list \<Rightarrow> event list" where
  "sends tr = filter is_send tr"

fun is_Unsubscribe :: "event \<Rightarrow> bool" where
  "is_Unsubscribe (Unsubscribe sub) = True"
| "is_Unsubscribe e = False"



subsection \<open>The coordinator of one message\<close>

text \<open>What happens around one call of \<^verbatim>\<open>processMessage\<close>: the case the first
  \<^verbatim>\<open>select\<close> takes (the hand-off), the case the second one takes (the ack phase), and
  the answers of the frame's methods.\<close>

datatype handoff = HandoffClosing | HandoffCtxDone | HandoffSent

datatype signal = Acked | Nacked | TimeoutFired | Closing | CtxDone

record delivery =
  handoff :: handoff
  signal :: signal
  Metadata_result :: "error + MsgMetadata"
  AckSync_result :: "error option"
  Ack_result :: "error option"
  Term_result :: "error option"
  NakWithDelay_result :: "Duration \<Rightarrow> error option"
  Nak_result :: "error option"

definition isClosed :: "Subscriber \<Rightarrow> bool" where
  "isClosed s = closed s"

definition Unmarshal :: "world \<Rightarrow> Unmarshaler \<Rightarrow> Msg \<Rightarrow> error + Message" where
  "Unmarshal w u m =
     (case u of NATSMarshaler \<Rightarrow> NATSMarshaler_Unmarshal w m | UserUnmarshaler f \<Rightarrow> f m)"

text \<open>The case \<^verbatim>\<open><-msg.Acked()\<close> of the second \<^verbatim>\<open>select\<close>.\<close>

definition ackedBranch :: "Subscriber \<Rightarrow> delivery \<Rightarrow> Msg \<Rightarrow> event list" where
  "ackedBranch s d m =
     (if Reply m = [] then [Log Trace ''ack without a reply subject is a no-op'']
      else
        (let (call, err) =
               (if AckSync (config s) then (MsgAckSync, AckSync_result d)
                else (MsgAck, Ack_result d))
         in call #
            (case err of
               Some e \<Rightarrow> [LogError ''Cannot send ack'' e]
             | None \<Rightarrow> [Log Trace ''Message Acked''])))"

text \<open>The case \<^verbatim>\<open><-msg.Nacked()\<close>: first the delay (\<^verbatim>\<open>nakDelay\<close> starts at zero, the
  zero value of its type), then the frame sent for it.\<close>

definition nakDelayOf :: "Subscriber \<Rightarrow> delivery \<Rightarrow> Duration \<times> event list" where
  "nakDelayOf s d =
     (case NakDelay (config s) of
        None \<Rightarrow> (0, [])
      | Some delay \<Rightarrow>
          (case Metadata_result d of
             Inl err \<Rightarrow>
               (0, [MsgMetadata,
                    LogError ''Cannot parse nats message metadata, use nak without delay'' err])
           | Inr metadata \<Rightarrow> (delay (NumDelivered metadata), [MsgMetadata])))"

definition nackedBranch :: "Subscriber \<Rightarrow> delivery \<Rightarrow> Msg \<Rightarrow> event list" where
  "nackedBranch s d m =
     (if Reply m = [] then [Log Trace ''Ignoring nack without reply topic'']
      else
        (let (nakDelay, evs) = nakDelayOf s d in
         evs @
         (if nakDelay = StopTime then
            MsgTerm #
            (case Term_result d of
               Some err \<Rightarrow> [LogError ''Cannot send term'' err]
             | None \<Rightarrow> [Log Trace ''Message Termed via -1 NakDelay calculation''])
          else if nakDelay > 0 then
            MsgNakWithDelay nakDelay #
            (case NakWithDelay_result d nakDelay of
               Some err \<Rightarrow> [LogError ''Cannot send nak'' err]
             | None \<Rightarrow> [Log Trace ''Message Nacked''])
          else
            MsgNak #
            (case Nak_result d of
               Some err \<Rightarrow> [LogError ''Cannot send nak'' err]
             | None \<Rightarrow> [Log Trace ''Message Nacked'']))))"

text \<open>The two deferred calls (\<^verbatim>\<open>timeout.Stop\<close>, then \<^verbatim>\<open>cancelCtx\<close>) run at every return
  that follows their \<^verbatim>\<open>defer\<close> statements.\<close>

definition processMessage :: "world \<Rightarrow> Subscriber \<Rightarrow> delivery \<Rightarrow> Msg \<Rightarrow> event list" where
  "processMessage w s d m =
     Log Trace ''Received message'' #
     (case Unmarshaler (config s) of
        None \<Rightarrow> [RuntimePanic ''nil pointer dereference'']
      | Some u \<Rightarrow>
          (case Unmarshal w u m of
             Inl err \<Rightarrow> [LogError ''Cannot unmarshal message'' err]
           | Inr msg \<Rightarrow>
               [Log Trace ''Unmarshaled message'', SetContext,
                NewTimer (AckWaitTimeout (config s))] @
               (if isClosed s then []
                else
                  (case handoff d of
                     HandoffClosing \<Rightarrow> [Log Trace ''Closing, message discarded'']
                   | HandoffCtxDone \<Rightarrow> [Log Trace ''Context cancelled, message discarded'']
                   | HandoffSent \<Rightarrow>
                       [Send msg, Log Trace ''Message sent to consumer''] @
                       (case signal d of
                          Acked \<Rightarrow> ackedBranch s d m
                        | Nacked \<Rightarrow> nackedBranch s d m
                        | TimeoutFired \<Rightarrow> [Log Trace ''Ack timeout'']
                        | Closing \<Rightarrow> [Log Trace ''Closing, message discarded before ack'']
                        | CtxDone \<Rightarrow>
                            [Log Trace ''Context cancelled, message discarded before ack''])))
               @ [TimerStop, CancelCtx]))"

subsection \<open>Subscribe\<close>

definition SubscribeInitialize :: "world \<Rightarrow> Subscriber \<Rightarrow> string \<Rightarrow> event list \<times> unit result" where
  "SubscribeInitialize w s topic =
     (case topicInterpreter s of
        None \<Rightarrow> ([], Panic ''nil pointer dereference'')
      | Some ti \<Rightarrow>
          ([EnsureStream topic],
           case ensureStream_result w topic of
             Some err \<Rightarrow> Err (errors_Wrap err ''cannot initialize subscribe'')
           | None \<Rightarrow> Ok ()))"

text \<open>The callback that \<^verbatim>\<open>subscribe\<close> hands to \<^verbatim>\<open>QueueSubscribe\<close> is the handler of
  subscriber number \<open>i\<close>; that number stands for it here.\<close>

definition subscribe ::
    "world \<Rightarrow> Subscriber \<Rightarrow> string \<Rightarrow> int \<Rightarrow> event list \<times> Subscription result" where
  "subscribe w s topic i =
     (case (if Enabled (JetStream (config s)) \<and> AutoProvision (JetStream (config s))
            then SubscribeInitialize w s topic else ([], Ok ())) of
        (evs, Err err) \<Rightarrow> (evs, Err err)
      | (evs, Panic p) \<Rightarrow> (evs, Panic p)
      | (evs, Ok u) \<Rightarrow>
          (case SubjectCalculator (config s) of
             None \<Rightarrow> (evs, Panic ''nil pointer dereference'')
           | Some calc \<Rightarrow>
               (evs @ [QueueSubscribe (Primary (calc topic)) (QueueGroup (config s)) i],
                case QueueSubscribe_result w i of
                  Inl err \<Rightarrow> Err err
                | Inr sub \<Rightarrow> Ok sub)))"

text \<open>The loop of \<^verbatim>\<open>Subscribe\<close>, from subscriber number \<open>i\<close> on.\<close>

function Subscribe_loop ::
    "world \<Rightarrow> Subscriber \<Rightarrow> string \<Rightarrow> int \<Rightarrow> event list \<times> unit result" where
  "Subscribe_loop w s topic i =
     (if i < SubscribersCount (config s) then
        (case subscribe w s topic i of
           (evs, Err err) \<Rightarrow>
             ([OutputWgAdd, Log Debug ''Starting subscriber''] @ evs,
              Err (errors_Wrap err ''cannot subscribe''))
         | (evs, Panic p) \<Rightarrow>
             ([OutputWgAdd, Log Debug ''Starting subscriber''] @ evs, Panic p)
         | (evs, Ok sub) \<Rightarrow>
             (case Subscribe_loop w s topic (i + 1) of
                (rest, r) \<Rightarrow>
                  ([OutputWgAdd, Log Debug ''Starting subscriber''] @ evs @
                   [Go (Watcher sub)] @ rest, r)))
      else ([], Ok ()))"
  by pat_completeness auto
termination
  by (relation "measure (\<lambda>(w, s, topic, i). nat (SubscribersCount (config s) - i))") auto

definition Subscribe ::
    "world \<Rightarrow> Subscriber \<Rightarrow> string \<Rightarrow> Subscriber \<times> event list \<times> channel result" where
  "Subscribe w s topic =
     (let s' = s\<lparr>outputsWg := outputsWg s + 1\<rparr> in
      case Subscribe_loop w s' topic 0 of
        (evs, Err err) \<Rightarrow> (s', [MakeOutput, OutputsWgAdd] @ evs, Err err)
      | (evs, Panic p) \<Rightarrow> (s', [MakeOutput, OutputsWgAdd] @ evs, Panic p)
      | (evs, Ok u) \<Rightarrow> (s', [MakeOutput, OutputsWgAdd] @ evs @ [Go Finisher], Ok Output))"

text \<open>The bodies of the two kinds of goroutine that \<^verbatim>\<open>Subscribe\<close> starts: the watcher
  of one native subscription, and the finisher that closes the delivery channel.\<close>

definition watcher :: "world \<Rightarrow> Subscription \<Rightarrow> event list" where
  "watcher w sub =
     [AwaitClosingOrDone, Unsubscribe sub] @
     (case Unsubscribe_result w sub of
        Some err \<Rightarrow> [LogError ''Cannot unsubscribe'' err]
      | None \<Rightarrow> []) @
     [OutputWgDone]"

definition finisher :: "event list" where
  "finisher = [OutputWgWait, CloseOutput, OutputsWgDone]"

subsection \<open>Close\<close>

text \<open>Closing a channel that is already closed is a run-time panic; the deferred log
  call runs on every way out of the function once it has been deferred.\<close>

definition Close :: "world \<Rightarrow> Subscriber \<Rightarrow> Subscriber \<times> event list \<times> unit result" where
  "Close w s =
     (if closed s then (s, [], Ok ())
      else
        (let s1 = s\<lparr>closed := True\<rparr> in
         if closing s1 then
           (s1, [Log Debug ''Closing subscriber'', Log Info ''Subscriber closed''],
            Panic ''close of closed channel'')
         else
           (let s2 = s1\<lparr>closing := True\<rparr> in
            if WaitGroupTimeout_result w then
              (s2,
               [Log Debug ''Closing subscriber'', CloseClosing,
                WaitGroupTimeout (CloseTimeout (config s2)), Log Info ''Subscriber closed''],
               Err (errors_New ''output wait group did not finish''))
            else
              (case Drain_result w of
                 Some err \<Rightarrow>
                   (s2,
                    [Log Debug ''Closing subscriber'', CloseClosing,
                     WaitGroupTimeout (CloseTimeout (config s2)), Drain,
                     Log Info ''Subscriber closed''],
                    Err (errors_Wrap err ''cannot close conn''))
               | None \<Rightarrow>
                   (s2,
                    [Log Debug ''Closing subscriber'', CloseClosing,
                     WaitGroupTimeout (CloseTimeout (config s2)), Drain,
                     Log Info ''Subscriber closed''],
                    Ok ())))))"

subsection \<open>Observing an outcome\<close>

text \<open>\<^verbatim>\<open>Subscribe\<close> and \<^verbatim>\<open>Close\<close> yield the subscriber after the call, the events of
  the call and what the call returns.\<close>

fun state_of :: "Subscriber \<times> event list \<times> 'a result \<Rightarrow> Subscriber" where
  "state_of (s, tr, r) = s"

fun trace_of :: "Subscriber \<times> event list \<times> 'a result \<Rightarrow> event list" where
  "trace_of (s, tr, r) = tr"

fun result_of :: "Subscriber \<times> event list \<times> 'a result \<Rightarrow> 'a result" where
  "result_of (s, tr, r) = r"

subsection \<open>Sample inputs\<close>

text \<open>The zero value of the configuration struct, a broker that answers every call with
  success, and variations of both, on which the theorems below are run.\<close>

definition zero_config :: SubscriberSubscriptionConfig where
  "zero_config =
     \<lparr>Unmarshaler = None, QueueGroup = [], SubscribersCount = 0, AckWaitTimeout = 0,
      CloseTimeout = 0, SubscribeTimeout = 0, SubjectCalculator = None, AckSync = False,
      NakDelay = None,
      JetStream = \<lparr>Enabled = False, AutoProvision = False, ConnectOptions = []\<rparr>\<rparr>"

definition local_conn :: Conn where
  "local_conn = NatsConn ''nats://127.0.0.1:4222''"

definition quiet_world :: world where
  "quiet_world =
     \<lparr>Connect_result = Inr local_conn,
      JetStream_result = Inr (JetStreamContext local_conn),
      NATSMarshaler_Unmarshal = (\<lambda>m. Inr \<lparr>UUID = ''6f1c'', Payload = Data m\<rparr>),
      ensureStream_result = (\<lambda>topic. None),
      QueueSubscribe_result = (\<lambda>i. Inr (Subscription (nat i))),
      Unsubscribe_result = (\<lambda>sub. None),
      WaitGroupTimeout_result = False,
      Drain_result = None\<rparr>"

definition slow_world :: world where
  "slow_world = quiet_world\<lparr>WaitGroupTimeout_result := True\<rparr>"


definition garbled_world :: world where
  "garbled_world =
     quiet_world\<lparr>NATSMarshaler_Unmarshal := (\<lambda>m. Inl (errors_New ''unexpected EOF''))\<rparr>"

definition workers_config :: SubscriberSubscriptionConfig where
  "workers_config = zero_config\<lparr>QueueGroup := ''workers'', SubscribersCount := 3\<rparr>"

definition sample_subscriber :: Subscriber where
  "sample_subscriber =
     \<lparr>conn = CoreConnection local_conn, logger = NopLogger,
      config = setDefaults workers_config, closed = False, closing = False,
      outputsWg = 0, topicInterpreter = None\<rparr>"

definition sample_frame :: Msg where
  "sample_frame =
     \<lparr>Subject = ''orders.created'', Reply = ''$JS.ACK.orders.c1.1.7.7.0.0'', Data = ''{}''\<rparr>"

definition sample_delivery :: delivery where
  "sample_delivery =
     \<lparr>handoff = HandoffSent, signal = Acked,
      Metadata_result = Inr \<lparr>NumDelivered = 3\<rparr>,
      AckSync_result = None, Ack_result = None, Term_result = None,
      NakWithDelay_result = (\<lambda>d. None), Nak_result = None\<rparr>"

text \<open>A delay policy that waits two seconds before the second and the third delivery and
  stops after that.\<close>

definition sample_delay :: Delay where
  "sample_delay retryNum = (if retryNum \<ge> 3 then StopTime else 2 * Second)"

definition broken_world :: world where
  "broken_world = quiet_world\<lparr>Drain_result := Some (errors_New ''nats: connection closed'')\<rparr>"

definition sync_subscriber :: Subscriber where
  "sync_subscriber = sample_subscriber\<lparr>config := (config sample_subscriber)\<lparr>AckSync := True\<rparr>\<rparr>"

definition delaying_subscriber :: Subscriber where
  "delaying_subscriber =
     sample_subscriber\<lparr>config := (config sample_subscriber)\<lparr>NakDelay := Some sample_delay\<rparr>\<rparr>"

definition nacked_delivery :: delivery where
  "nacked_delivery = sample_delivery\<lparr>signal := Nacked\<rparr>"

definition first_nacked_delivery :: delivery where
  "first_nacked_delivery = nacked_delivery\<lparr>Metadata_result := Inr \<lparr>NumDelivered = 1\<rparr>\<rparr>"

definition duplicating_config :: SubscriberSubscriptionConfig where
  "duplicating_config = zero_config\<lparr>SubscribersCount := 2\<rparr>"

definition duplicating_SubscriberConfig :: SubscriberConfig where
  "duplicating_SubscriberConfig =
     \<lparr>Unmarshaler = None, QueueGroup = [], SubscribersCount = 2, AckWaitTimeout = 0,
      CloseTimeout = 0, SubscribeTimeout = 0, SubjectCalculator = None, AckSync = False,
      NakDelay = None,
      JetStream = \<lparr>Enabled = False, AutoProvision = False, ConnectOptions = []\<rparr>,
      URL = ''nats://127.0.0.1:4222'', NatsOptions = []\<rparr>"

definition timed_config :: SubscriberSubscriptionConfig where
  "timed_config = zero_config\<lparr>AckWaitTimeout := 5 * Second, SubscribeTimeout := - 1\<rparr>"

section \<open>Properties\<close>

declare Subscribe_loop.simps [simp del]

subsection \<open>Defaults and validation\<close>

lemma setDefaults_fields:
  "SubscribersCount (setDefaults c) = (if SubscribersCount c \<le> 0 then 1 else SubscribersCount c)"
  "CloseTimeout (setDefaults c) = (if CloseTimeout c \<le> 0 then Second * 30 else CloseTimeout c)"
  "AckWaitTimeout (setDefaults c) =
     (if AckWaitTimeout c \<le> 0 then Second * 30 else AckWaitTimeout c)"
  "SubscribeTimeout (setDefaults c) =
     (if SubscribeTimeout c \<le> 0 then Second * 30 else SubscribeTimeout c)"
  "Unmarshaler (setDefaults c) =
     (if Unmarshaler c = None then Some NATSMarshaler else Unmarshaler c)"
  "SubjectCalculator (setDefaults c) =
     (if SubjectCalculator c = None then Some DefaultSubjectCalculator else SubjectCalculator c)"
  "QueueGroup (setDefaults c) = QueueGroup c"
  "AckSync (setDefaults c) = AckSync c"
  "NakDelay (setDefaults c) = NakDelay c"
  "JetStream (setDefaults c) = JetStream c"
  by (simp_all add: setDefaults_def Let_def)

text \<open>After defaulting, the unmarshaler and the subject calculator are set, so only the
  queue-group check of \<^verbatim>\<open>Validate\<close> can fail.\<close>

lemma Validate_setDefaults:
  "Validate (setDefaults c) =
     (if QueueGroup c = [] \<and> SubscribersCount c > 1 then
        Some (errors_New
          (''to set SubscriberConfig.SubscribersCount '' @
           ''you need to also set SubscriberConfig.QueueGroup, '' @
           ''in other case you will receive duplicated messages''))
      else None)"
  unfolding Validate_def by (auto simp: setDefaults_fields simp del: append.simps)

lemma GetSubscriberSubscriptionConfig_fields:
  "QueueGroup (GetSubscriberSubscriptionConfig c) = QueueGroup c"
  "SubscribersCount (GetSubscriberSubscriptionConfig c) = SubscribersCount c"
  by (simp_all add: GetSubscriberSubscriptionConfig_def)

text \<open>A subscriber that comes out of the constructor is open, its channel \<^verbatim>\<open>closing\<close> is
  open, and its configuration is the defaulted one.\<close>

lemma NewSubscriberWithNatsConn_Inr:
  assumes "NewSubscriberWithNatsConn w cn c lg = Inr s"
  shows "config s = setDefaults c" and "\<not> closed s" and "\<not> closing s"
    and "Validate (setDefaults c) = None"
    and "Unmarshaler (config s) \<noteq> None" and "SubjectCalculator (config s) \<noteq> None"
  using assms
  by (auto simp: NewSubscriberWithNatsConn_def Let_def setDefaults_fields
           split: option.splits sum.splits if_splits)

lemma NewSubscriberWithNatsConn_invalid:
  "Validate (setDefaults c) = Some err \<Longrightarrow> NewSubscriberWithNatsConn w cn c lg = Inl err"
  by (simp add: NewSubscriberWithNatsConn_def Let_def)

lemma sample_subscriber_constructed:
  "NewSubscriberWithNatsConn quiet_world local_conn workers_config None = Inr sample_subscriber"
  by (simp add: NewSubscriberWithNatsConn_def Validate_def setDefaults_fields
        workers_config_def zero_config_def sample_subscriber_def)

text \<open>
  Claim C3. Construction of a subscriber fails with a validation error if and only if the
  configuration, after defaulting, has an empty \<^verbatim>\<open>QueueGroup\<close> together with a
  \<^verbatim>\<open>SubscribersCount\<close> greater than 1; a defaulted configuration with a non-empty
  \<^verbatim>\<open>QueueGroup\<close>, or with a \<^verbatim>\<open>SubscribersCount\<close> of at most 1, passes validation. The
  same holds for \<^verbatim>\<open>NewSubscriber\<close> once the connection to the broker is there.
\<close>

theorem construction_validation:
  "(Validate (setDefaults c) \<noteq> None) =
     (QueueGroup (setDefaults c) = [] \<and> SubscribersCount (setDefaults c) > 1) \<and>
   (\<exists>err. Validate (setDefaults c) = Some err \<and>
          NewSubscriberWithNatsConn w cn c lg = Inl err) =
     (QueueGroup (setDefaults c) = [] \<and> SubscribersCount (setDefaults c) > 1) \<and>
   (QueueGroup (setDefaults c) \<noteq> [] \<or> SubscribersCount (setDefaults c) \<le> 1 \<longrightarrow>
      Validate (setDefaults c) = None) \<and>
   (Connect_result w = Inr cn \<longrightarrow>
      (\<exists>err. Validate (setDefaults (GetSubscriberSubscriptionConfig cfg)) = Some err \<and>
             NewSubscriber w cfg lg = Inl err) =
        (QueueGroup cfg = [] \<and> SubscribersCount cfg > 1))"
proof -
  have v: "(Validate (setDefaults c) \<noteq> None) =
             (QueueGroup (setDefaults c) = [] \<and> SubscribersCount (setDefaults c) > 1)" for c
    by (auto simp: Validate_setDefaults setDefaults_fields simp del: append.simps)
  have n: "(\<exists>err. Validate (setDefaults c) = Some err \<and>
                 NewSubscriberWithNatsConn w cn c lg = Inl err) =
             (Validate (setDefaults c) \<noteq> None)" for c
    by (auto simp: NewSubscriberWithNatsConn_invalid)
  have g: "(QueueGroup (setDefaults (GetSubscriberSubscriptionConfig cfg)) = [] \<and>
            SubscribersCount (setDefaults (GetSubscriberSubscriptionConfig cfg)) > 1) =
           (QueueGroup cfg = [] \<and> SubscribersCount cfg > 1)"
    by (auto simp: setDefaults_fields GetSubscriberSubscriptionConfig_fields)
  have s: "Connect_result w = Inr cn \<Longrightarrow>
           NewSubscriber w cfg lg =
             NewSubscriberWithNatsConn w cn (GetSubscriberSubscriptionConfig cfg) lg"
    by (simp add: NewSubscriber_def)
  show ?thesis
    using v[of c] n[of c] v[of "GetSubscriberSubscriptionConfig cfg"]
      n[of "GetSubscriberSubscriptionConfig cfg"] g s
    by auto
qed

theorem construction_validation_witness:
  "QueueGroup (setDefaults duplicating_config) = [] \<and>
   SubscribersCount (setDefaults duplicating_config) = 2 \<and>
   Validate (setDefaults duplicating_config) \<noteq> None \<and>
   (\<exists>err. NewSubscriberWithNatsConn quiet_world local_conn duplicating_config None = Inl err) \<and>
   Connect_result quiet_world = Inr local_conn \<and>
   (\<exists>err. NewSubscriber quiet_world duplicating_SubscriberConfig None = Inl err) \<and>
   QueueGroup (setDefaults workers_config) = ''workers'' \<and>
   Validate (setDefaults workers_config) = None \<and>
   SubscribersCount (setDefaults zero_config) = 1 \<and>
   Validate (setDefaults zero_config) = None"
proof -
  have a: "QueueGroup (setDefaults duplicating_config) = []"
    and b: "SubscribersCount (setDefaults duplicating_config) = 2"
    by (simp_all add: setDefaults_fields duplicating_config_def zero_config_def)
  have c: "Connect_result quiet_world = Inr local_conn"
    by (simp add: quiet_world_def)
  have d: "QueueGroup duplicating_SubscriberConfig = []"
    and e: "SubscribersCount duplicating_SubscriberConfig = 2"
    by (simp_all add: duplicating_SubscriberConfig_def)
  have f: "QueueGroup (setDefaults workers_config) = ''workers''"
    and g: "SubscribersCount (setDefaults zero_config) = 1"
    by (simp_all add: setDefaults_fields workers_config_def zero_config_def)
  from construction_validation
         [of duplicating_config quiet_world local_conn None duplicating_SubscriberConfig]
       construction_validation
         [of workers_config quiet_world local_conn None duplicating_SubscriberConfig]
       construction_validation
         [of zero_config quiet_world local_conn None duplicating_SubscriberConfig]
       a b c d e f g
  show ?thesis by auto
qed

text \<open>
  Claim C9. After defaulting, each of the three timeouts of the subscription configuration
  (\<^verbatim>\<open>CloseTimeout\<close>, \<^verbatim>\<open>AckWaitTimeout\<close>, \<^verbatim>\<open>SubscribeTimeout\<close>) is 30 seconds if it was not
  positive and is unchanged if it was positive; validation in the constructor runs on the
  defaulted configuration, which is also the one the subscriber keeps.
\<close>

theorem setDefaults_timeouts:
  "CloseTimeout (setDefaults c) = (if CloseTimeout c \<le> 0 then 30 * Second else CloseTimeout c) \<and>
   AckWaitTimeout (setDefaults c) =
     (if AckWaitTimeout c \<le> 0 then 30 * Second else AckWaitTimeout c) \<and>
   SubscribeTimeout (setDefaults c) =
     (if SubscribeTimeout c \<le> 0 then 30 * Second else SubscribeTimeout c) \<and>
   (\<forall>err. Validate (setDefaults c) = Some err \<longrightarrow>
          NewSubscriberWithNatsConn w cn c lg = Inl err) \<and>
   (\<forall>s. NewSubscriberWithNatsConn w cn c lg = Inr s \<longrightarrow>
        Validate (setDefaults c) = None \<and> config s = setDefaults c)"
  by (simp add: setDefaults_fields NewSubscriberWithNatsConn_invalid
        NewSubscriberWithNatsConn_Inr)

theorem setDefaults_timeouts_witness:
  "CloseTimeout timed_config = 0 \<and>
   CloseTimeout (setDefaults timed_config) = 30000000000 \<and>
   AckWaitTimeout timed_config = 5000000000 \<and>
   AckWaitTimeout (setDefaults timed_config) = 5000000000 \<and>
   SubscribeTimeout timed_config = - 1 \<and>
   SubscribeTimeout (setDefaults timed_config) = 30000000000 \<and>
   (\<exists>s. NewSubscriberWithNatsConn quiet_world local_conn timed_config None = Inr s \<and>
        config s = setDefaults timed_config) \<and>
   (\<exists>err. Validate (setDefaults duplicating_config) = Some err \<and>
          NewSubscriberWithNatsConn quiet_world local_conn duplicating_config None = Inl err)"
proof -
  have a: "CloseTimeout timed_config = 0" "AckWaitTimeout timed_config = 5000000000"
    "SubscribeTimeout timed_config = - 1"
    by (simp_all add: timed_config_def zero_config_def Second_def)
  have b: "\<exists>s. NewSubscriberWithNatsConn quiet_world local_conn timed_config None = Inr s"
    by (simp add: NewSubscriberWithNatsConn_def Validate_setDefaults setDefaults_fields
          timed_config_def zero_config_def)
  have c: "\<exists>err. Validate (setDefaults duplicating_config) = Some err"
    by (simp add: Validate_setDefaults duplicating_config_def zero_config_def)
  from setDefaults_timeouts [of timed_config quiet_world local_conn None]
       setDefaults_timeouts [of duplicating_config quiet_world local_conn None]
       a b c
  show ?thesis by (auto simp: Second_def)
qed

subsection \<open>The coordinator of one message\<close>

text \<open>A frame that unmarshals and is handed to the consumer: the events up to the second
  \<^verbatim>\<open>select\<close>, the branch that \<^verbatim>\<open>select\<close> takes, and the two deferred calls.\<close>

lemma processMessage_delivered:
  assumes "Unmarshaler (config s) = Some u" and "Unmarshal w u m = Inr msg"
    and "\<not> isClosed s" and "handoff d = HandoffSent"
  shows "processMessage w s d m =
           [Log Trace ''Received message'', Log Trace ''Unmarshaled message'', SetContext,
            NewTimer (AckWaitTimeout (config s)), Send msg,
            Log Trace ''Message sent to consumer''] @
           (case signal d of
              Acked \<Rightarrow> ackedBranch s d m
            | Nacked \<Rightarrow> nackedBranch s d m
            | TimeoutFired \<Rightarrow> [Log Trace ''Ack timeout'']
            | Closing \<Rightarrow> [Log Trace ''Closing, message discarded before ack'']
            | CtxDone \<Rightarrow> [Log Trace ''Context cancelled, message discarded before ack'']) @
           [TimerStop, CancelCtx]"
  using assms by (simp add: processMessage_def)

lemma transport_calls_ackedBranch:
  "transport_calls (ackedBranch s d m) =
     (if Reply m = [] then [] else if AckSync (config s) then [MsgAckSync] else [MsgAck])"
  by (simp add: ackedBranch_def transport_calls_def split: option.splits)

lemma nakDelayOf_no_transport: "filter is_transport (snd (nakDelayOf s d)) = []"
  by (simp add: nakDelayOf_def split: option.splits sum.splits)

lemma transport_calls_nackedBranch:
  "transport_calls (nackedBranch s d m) =
     (if Reply m = [] then []
      else if fst (nakDelayOf s d) = StopTime then [MsgTerm]
      else if fst (nakDelayOf s d) > 0 then [MsgNakWithDelay (fst (nakDelayOf s d))]
      else [MsgNak])"
proof (cases "Reply m = []")
  case True
  then show ?thesis by (simp add: nackedBranch_def transport_calls_def)
next
  case False
  obtain nd evs where nd: "nakDelayOf s d = (nd, evs)" by (cases "nakDelayOf s d")
  have evs: "filter is_transport evs = []"
    using nakDelayOf_no_transport[of s d] nd by simp
  show ?thesis
  proof (cases "nd = StopTime")
    case True
    with False nd evs show ?thesis
      by (cases "Term_result d") (simp_all add: nackedBranch_def transport_calls_def)
  next
    case stop: False
    show ?thesis
    proof (cases "nd > 0")
      case True
      with False stop nd evs show ?thesis
        by (cases "NakWithDelay_result d nd")
           (simp_all add: nackedBranch_def transport_calls_def)
    next
      case False
      with \<open>Reply m \<noteq> []\<close> stop nd evs show ?thesis
        by (cases "Nak_result d") (simp_all add: nackedBranch_def transport_calls_def)
    qed
  qed
qed

lemma sample_subscriber_Unmarshaler:
  "Unmarshaler (config sample_subscriber) = Some NATSMarshaler"
  "Unmarshaler (config sync_subscriber) = Some NATSMarshaler"
  "Unmarshaler (config delaying_subscriber) = Some NATSMarshaler"
  by (simp_all add: sample_subscriber_def sync_subscriber_def delaying_subscriber_def
        setDefaults_fields workers_config_def zero_config_def)

lemma sample_frame_unmarshals:
  "Unmarshal quiet_world NATSMarshaler sample_frame = Inr \<lparr>UUID = ''6f1c'', Payload = ''{}''\<rparr>"
  by (simp add: Unmarshal_def quiet_world_def sample_frame_def)

lemma sample_subscriber_open:
  "\<not> isClosed sample_subscriber" "\<not> isClosed sync_subscriber" "\<not> isClosed delaying_subscriber"
  by (simp_all add: isClosed_def sample_subscriber_def sync_subscriber_def
        delaying_subscriber_def)

text \<open>A handler that finds the subscriber closed hands nothing to the consumer and sends
  nothing to the broker.\<close>

lemma processMessage_closed_no_send:
  "isClosed s \<Longrightarrow>
     sends (processMessage w s d m) = [] \<and> transport_calls (processMessage w s d m) = []"
  by (simp add: processMessage_def sends_def transport_calls_def
        split: option.splits sum.splits)

text \<open>
  Claim C8. When unmarshalling a delivered frame fails, the coordinator logs the error and
  returns at once: nothing is sent on the delivery channel, and no ack, nak or term goes
  to the broker for the frame.
\<close>

theorem processMessage_unmarshal_failure:
  assumes "Unmarshaler (config s) = Some u" and "Unmarshal w u m = Inl err"
  shows "processMessage w s d m =
           [Log Trace ''Received message'', LogError ''Cannot unmarshal message'' err] \<and>
         sends (processMessage w s d m) = [] \<and>
         transport_calls (processMessage w s d m) = []"
  using assms by (simp add: processMessage_def sends_def transport_calls_def)

theorem processMessage_unmarshal_failure_witness:
  "Unmarshaler (config sample_subscriber) = Some NATSMarshaler \<and>
   Unmarshal garbled_world NATSMarshaler sample_frame = Inl (errors_New ''unexpected EOF'') \<and>
   processMessage garbled_world sample_subscriber sample_delivery sample_frame =
     [Log Trace ''Received message'',
      LogError ''Cannot unmarshal message'' (errors_New ''unexpected EOF'')] \<and>
   sends (processMessage garbled_world sample_subscriber sample_delivery sample_frame) = [] \<and>
   transport_calls (processMessage garbled_world sample_subscriber sample_delivery sample_frame)
     = []"
proof -
  have u: "Unmarshaler (config sample_subscriber) = Some NATSMarshaler"
    by (rule sample_subscriber_Unmarshaler)
  have e: "Unmarshal garbled_world NATSMarshaler sample_frame =
             Inl (errors_New ''unexpected EOF'')"
    by (simp add: Unmarshal_def garbled_world_def quiet_world_def)
  from processMessage_unmarshal_failure [OF u e, of sample_delivery] u e
  show ?thesis by (simp add: sends_def transport_calls_def)
qed

text \<open>
  Claim C6. In the ack phase, when the acked signal is observed: with an empty reply
  subject the coordinator returns without sending anything; otherwise it sends one ack,
  the synchronous \<^verbatim>\<open>AckSync\<close> when the flag \<^verbatim>\<open>AckSync\<close> is set and the asynchronous
  \<^verbatim>\<open>Ack\<close> when it is not. The synchronous call has returned, and its answer has been
  logged, before the coordinator runs its deferred calls and returns.
\<close>

theorem processMessage_acked:
  assumes "Unmarshaler (config s) = Some u" and "Unmarshal w u m = Inr msg"
    and "\<not> isClosed s" and "handoff d = HandoffSent" and "signal d = Acked"
  shows "transport_calls (processMessage w s d m) =
           (if Reply m = [] then [] else if AckSync (config s) then [MsgAckSync] else [MsgAck]) \<and>
         (Reply m \<noteq> [] \<and> AckSync (config s) \<longrightarrow>
            processMessage w s d m =
              [Log Trace ''Received message'', Log Trace ''Unmarshaled message'', SetContext,
               NewTimer (AckWaitTimeout (config s)), Send msg,
               Log Trace ''Message sent to consumer'', MsgAckSync,
               (case AckSync_result d of
                  Some e \<Rightarrow> LogError ''Cannot send ack'' e
                | None \<Rightarrow> Log Trace ''Message Acked''),
               TimerStop, CancelCtx])"
proof -
  have "transport_calls (processMessage w s d m) = transport_calls (ackedBranch s d m)"
    using assms by (simp add: processMessage_delivered transport_calls_def)
  moreover have "Reply m \<noteq> [] \<and> AckSync (config s) \<longrightarrow>
      ackedBranch s d m =
        [MsgAckSync,
         (case AckSync_result d of
            Some e \<Rightarrow> LogError ''Cannot send ack'' e
          | None \<Rightarrow> Log Trace ''Message Acked'')]"
    by (simp add: ackedBranch_def split: option.splits)
  ultimately show ?thesis
    using assms by (simp add: transport_calls_ackedBranch processMessage_delivered)
qed

theorem processMessage_acked_witness:
  "Reply sample_frame \<noteq> [] \<and> AckSync (config sync_subscriber) \<and>
   \<not> AckSync (config sample_subscriber) \<and>
   handoff sample_delivery = HandoffSent \<and> signal sample_delivery = Acked \<and>
   transport_calls (processMessage quiet_world sync_subscriber sample_delivery sample_frame) =
     [MsgAckSync] \<and>
   transport_calls (processMessage quiet_world sample_subscriber sample_delivery sample_frame) =
     [MsgAck] \<and>
   transport_calls
     (processMessage quiet_world sync_subscriber sample_delivery (sample_frame\<lparr>Reply := []\<rparr>)) = []"
proof -
  have r: "Reply sample_frame \<noteq> []" "Reply (sample_frame\<lparr>Reply := []\<rparr>) = []"
    by (simp_all add: sample_frame_def)
  have f: "AckSync (config sync_subscriber)" "\<not> AckSync (config sample_subscriber)"
    by (simp_all add: sync_subscriber_def sample_subscriber_def setDefaults_fields
          workers_config_def zero_config_def)
  have h: "handoff sample_delivery = HandoffSent" and g: "signal sample_delivery = Acked"
    by (simp_all add: sample_delivery_def)
  have e: "Unmarshal quiet_world NATSMarshaler (sample_frame\<lparr>Reply := []\<rparr>) =
             Inr \<lparr>UUID = ''6f1c'', Payload = ''{}''\<rparr>"
    by (simp add: Unmarshal_def quiet_world_def sample_frame_def)
  from processMessage_acked
         [OF sample_subscriber_Unmarshaler(2) sample_frame_unmarshals
             sample_subscriber_open(2) h g]
       processMessage_acked
         [OF sample_subscriber_Unmarshaler(1) sample_frame_unmarshals
             sample_subscriber_open(1) h g]
       processMessage_acked [OF sample_subscriber_Unmarshaler(2) e sample_subscriber_open(2) h g]
       r f h g
  show ?thesis by (simp add: transport_calls_def sample_delivery_def)
qed

text \<open>
  Claim C2. In the ack phase, when the nacked signal is observed: with an empty reply
  subject the coordinator returns without a transport call. Otherwise \<^verbatim>\<open>nakDelay\<close> is the
  configured delay policy applied to the frame's \<^verbatim>\<open>NumDelivered\<close>, and zero when the
  metadata cannot be read, which is logged (it is zero as well when no policy is
  configured); the coordinator then sends \<^verbatim>\<open>Term\<close> alone when \<^verbatim>\<open>nakDelay\<close> is
  \<^verbatim>\<open>StopTime\<close>, \<^verbatim>\<open>NakWithDelay(nakDelay)\<close> when \<^verbatim>\<open>nakDelay\<close> is positive, and an immediate
  \<^verbatim>\<open>Nak\<close> in every other case.
\<close>

theorem processMessage_nacked:
  assumes "Unmarshaler (config s) = Some u" and "Unmarshal w u m = Inr msg"
    and "\<not> isClosed s" and "handoff d = HandoffSent" and "signal d = Nacked"
  shows "transport_calls (processMessage w s d m) =
           (if Reply m = [] then []
            else
              (let nakDelay =
                     (case NakDelay (config s) of
                        None \<Rightarrow> 0
                      | Some delay \<Rightarrow>
                          (case Metadata_result d of
                             Inl err \<Rightarrow> 0
                           | Inr metadata \<Rightarrow> delay (NumDelivered metadata)))
               in if nakDelay = StopTime then [MsgTerm]
                  else if nakDelay > 0 then [MsgNakWithDelay nakDelay]
                  else [MsgNak])) \<and>
         (Reply m \<noteq> [] \<and> NakDelay (config s) \<noteq> None \<longrightarrow>
            (case Metadata_result d of
               Inl err \<Rightarrow>
                 LogError ''Cannot parse nats message metadata, use nak without delay'' err
                   \<in> set (processMessage w s d m)
             | Inr metadata \<Rightarrow> True))"
proof -
  have "transport_calls (processMessage w s d m) = transport_calls (nackedBranch s d m)"
    using assms by (simp add: processMessage_delivered transport_calls_def)
  then have calls: "transport_calls (processMessage w s d m) =
           (if Reply m = [] then []
            else
              (let nakDelay =
                     (case NakDelay (config s) of
                        None \<Rightarrow> 0
                      | Some delay \<Rightarrow>
                          (case Metadata_result d of
                             Inl err \<Rightarrow> 0
                           | Inr metadata \<Rightarrow> delay (NumDelivered metadata)))
               in if nakDelay = StopTime then [MsgTerm]
                  else if nakDelay > 0 then [MsgNakWithDelay nakDelay]
                  else [MsgNak]))"
    by (simp add: transport_calls_nackedBranch nakDelayOf_def Let_def
             split: option.splits sum.splits)
  have logged: "LogError ''Cannot parse nats message metadata, use nak without delay'' err
                  \<in> set (processMessage w s d m)"
    if "Reply m \<noteq> []" and "NakDelay (config s) = Some delay" and "Metadata_result d = Inl err"
    for delay err
  proof -
    have "LogError ''Cannot parse nats message metadata, use nak without delay'' err
            \<in> set (snd (nakDelayOf s d))"
      using that by (simp add: nakDelayOf_def)
    then have "LogError ''Cannot parse nats message metadata, use nak without delay'' err
            \<in> set (nackedBranch s d m)"
      using that(1) by (cases "nakDelayOf s d") (simp add: nackedBranch_def)
    then show ?thesis
      using assms by (simp add: processMessage_delivered)
  qed
  show ?thesis
    using calls logged by (auto split: sum.splits)
qed

theorem processMessage_nacked_witness:
  "Reply sample_frame \<noteq> [] \<and> handoff nacked_delivery = HandoffSent \<and>
   signal nacked_delivery = Nacked \<and>
   NakDelay (config delaying_subscriber) = Some sample_delay \<and>
   Metadata_result nacked_delivery = Inr \<lparr>NumDelivered = 3\<rparr> \<and> sample_delay 3 = StopTime \<and>
   transport_calls (processMessage quiet_world delaying_subscriber nacked_delivery sample_frame)
     = [MsgTerm] \<and>
   Metadata_result first_nacked_delivery = Inr \<lparr>NumDelivered = 1\<rparr> \<and>
   sample_delay 1 = 2000000000 \<and>
   transport_calls
     (processMessage quiet_world delaying_subscriber first_nacked_delivery sample_frame)
     = [MsgNakWithDelay 2000000000]"
proof -
  have r: "Reply sample_frame \<noteq> []"
    by (simp add: sample_frame_def)
  have h: "handoff nacked_delivery = HandoffSent" "signal nacked_delivery = Nacked"
    "handoff first_nacked_delivery = HandoffSent" "signal first_nacked_delivery = Nacked"
    by (simp_all add: first_nacked_delivery_def nacked_delivery_def sample_delivery_def)
  have p: "NakDelay (config delaying_subscriber) = Some sample_delay"
    by (simp add: delaying_subscriber_def)
  have n: "Metadata_result nacked_delivery = Inr \<lparr>NumDelivered = 3\<rparr>"
    "Metadata_result first_nacked_delivery = Inr \<lparr>NumDelivered = 1\<rparr>"
    by (simp_all add: first_nacked_delivery_def nacked_delivery_def sample_delivery_def)
  have v: "sample_delay 3 = StopTime" "sample_delay 1 = 2000000000" "StopTime \<noteq> 2000000000"
    "StopTime = - 1"
    by (simp_all add: sample_delay_def StopTime_def Second_def)
  from processMessage_nacked
         [OF sample_subscriber_Unmarshaler(3) sample_frame_unmarshals
             sample_subscriber_open(3) h(1) h(2)]
       processMessage_nacked
         [OF sample_subscriber_Unmarshaler(3) sample_frame_unmarshals
             sample_subscriber_open(3) h(3) h(4)]
       r h p n v
  show ?thesis by simp
qed

text \<open>
  Claim C10. With no delay policy configured (\<^verbatim>\<open>NakDelay\<close> is nil), a nacked message
  whose frame has a non-empty reply subject gets an immediate \<^verbatim>\<open>Nak\<close>, never \<^verbatim>\<open>Term\<close>
  and never \<^verbatim>\<open>NakWithDelay\<close>, and the metadata of the frame is not read.
\<close>

theorem processMessage_nacked_no_policy:
  assumes "Unmarshaler (config s) = Some u" and "Unmarshal w u m = Inr msg"
    and "\<not> isClosed s" and "handoff d = HandoffSent" and "signal d = Nacked"
    and "NakDelay (config s) = None" and "Reply m \<noteq> []"
  shows "transport_calls (processMessage w s d m) = [MsgNak] \<and>
         MsgMetadata \<notin> set (processMessage w s d m)"
proof -
  have "nackedBranch s d m =
          [MsgNak,
           (case Nak_result d of
              Some err \<Rightarrow> LogError ''Cannot send nak'' err
            | None \<Rightarrow> Log Trace ''Message Nacked'')]"
    using assms(6,7)
    by (simp add: nackedBranch_def nakDelayOf_def StopTime_def split: option.splits)
  then show ?thesis
    using assms(1-5)
    by (simp add: processMessage_delivered transport_calls_def split: option.splits)
qed

theorem processMessage_nacked_no_policy_witness:
  "NakDelay (config sample_subscriber) = None \<and> Reply sample_frame \<noteq> [] \<and>
   handoff nacked_delivery = HandoffSent \<and> signal nacked_delivery = Nacked \<and>
   transport_calls (processMessage quiet_world sample_subscriber nacked_delivery sample_frame)
     = [MsgNak] \<and>
   MsgMetadata \<notin>
     set (processMessage quiet_world sample_subscriber nacked_delivery sample_frame)"
proof -
  have r: "Reply sample_frame \<noteq> []"
    by (simp add: sample_frame_def)
  have h: "handoff nacked_delivery = HandoffSent" and g: "signal nacked_delivery = Nacked"
    by (simp_all add: nacked_delivery_def sample_delivery_def)
  have p: "NakDelay (config sample_subscriber) = None"
    by (simp add: sample_subscriber_def setDefaults_fields workers_config_def zero_config_def)
  from processMessage_nacked_no_policy
         [OF sample_subscriber_Unmarshaler(1) sample_frame_unmarshals
             sample_subscriber_open(1) h g p r]
       r h g p
  show ?thesis by simp
qed

subsection \<open>Close\<close>

lemma Close_closed: "closed s \<Longrightarrow> Close w s = (s, [], Ok ())"
  by (simp add: Close_def)

lemma Close_open:
  assumes "\<not> closed s" and "\<not> closing s"
  shows "state_of (Close w s) = s\<lparr>closed := True, closing := True\<rparr>"
    and "trace_of (Close w s) =
           [Log Debug ''Closing subscriber'', CloseClosing,
            WaitGroupTimeout (CloseTimeout (config s))] @
           (if WaitGroupTimeout_result w then [] else [Drain]) @
           [Log Info ''Subscriber closed'']"
    and "result_of (Close w s) =
           (if WaitGroupTimeout_result w then
              Err (errors_New ''output wait group did not finish'')
            else
              (case Drain_result w of
                 Some err \<Rightarrow> Err (errors_Wrap err ''cannot close conn'')
               | None \<Rightarrow> Ok ()))"
  using assms by (simp_all add: Close_def Let_def split: option.splits)

text \<open>The flag \<^verbatim>\<open>closed\<close> is set exactly when the channel \<^verbatim>\<open>closing\<close> is closed: the
  constructor establishes this (lemma \<open>NewSubscriberWithNatsConn_Inr\<close>), and \<^verbatim>\<open>Close\<close> and
  \<^verbatim>\<open>Subscribe\<close> keep it.\<close>

lemma Close_keeps_invariant:
  "closing s = closed s \<Longrightarrow> closing (state_of (Close w s)) = closed (state_of (Close w s))"
  by (cases "closed s") (simp_all add: Close_closed Close_open)

lemma Subscribe_keeps_flags:
  "closed (state_of (Subscribe w s topic)) = closed s \<and>
   closing (state_of (Subscribe w s topic)) = closing s \<and>
   outputsWg (state_of (Subscribe w s topic)) = outputsWg s + 1"
  by (simp add: Subscribe_def Let_def split: prod.splits result.splits)

lemma sample_subscriber_flags:
  "\<not> closed sample_subscriber" "\<not> closing sample_subscriber"
  by (simp_all add: sample_subscriber_def)

text \<open>
  Claim C4. In a \<^verbatim>\<open>Close\<close> that gets as far as waiting for the outer wait-group (the
  subscriber was open): if the wait-group does not drain within \<^verbatim>\<open>CloseTimeout\<close>, \<^verbatim>\<open>Close\<close>
  returns the error "output wait group did not finish" and does not call \<^verbatim>\<open>Drain\<close>; if it
  drains in time, \<^verbatim>\<open>Close\<close> calls \<^verbatim>\<open>Drain\<close> once and returns its error, wrapped, or
  success.
\<close>

theorem Close_timeout_skips_Drain:
  assumes "\<not> closed s" and "\<not> closing s"
  shows "WaitGroupTimeout (CloseTimeout (config s)) \<in> set (trace_of (Close w s)) \<and>
         (WaitGroupTimeout_result w \<longrightarrow>
            result_of (Close w s) = Err (errors_New ''output wait group did not finish'') \<and>
            Drain \<notin> set (trace_of (Close w s))) \<and>
         (\<not> WaitGroupTimeout_result w \<longrightarrow>
            count_list (trace_of (Close w s)) Drain = 1 \<and>
            result_of (Close w s) =
              (case Drain_result w of
                 Some err \<Rightarrow> Err (errors_Wrap err ''cannot close conn'')
               | None \<Rightarrow> Ok ()))"
  by (simp add: Close_open [OF assms])

theorem Close_timeout_skips_Drain_witness:
  "\<not> closed sample_subscriber \<and> \<not> closing sample_subscriber \<and>
   WaitGroupTimeout_result slow_world \<and>
   result_of (Close slow_world sample_subscriber) =
     Err (errors_New ''output wait group did not finish'') \<and>
   Drain \<notin> set (trace_of (Close slow_world sample_subscriber)) \<and>
   \<not> WaitGroupTimeout_result broken_world \<and>
   count_list (trace_of (Close broken_world sample_subscriber)) Drain = 1 \<and>
   result_of (Close broken_world sample_subscriber) =
     Err (errors_Wrap (errors_New ''nats: connection closed'') ''cannot close conn'') \<and>
   result_of (Close quiet_world sample_subscriber) = Ok ()"
proof -
  note a = sample_subscriber_flags(1) and b = sample_subscriber_flags(2)
  have c: "WaitGroupTimeout_result slow_world"
    and d: "\<not> WaitGroupTimeout_result broken_world"
    and e: "Drain_result broken_world = Some (errors_New ''nats: connection closed'')"
    and f: "\<not> WaitGroupTimeout_result quiet_world"
    and g: "Drain_result quiet_world = None"
    by (simp_all add: slow_world_def broken_world_def quiet_world_def)
  from Close_timeout_skips_Drain [OF a b, of slow_world]
       Close_timeout_skips_Drain [OF a b, of broken_world]
       Close_timeout_skips_Drain [OF a b, of quiet_world]
       a b c d e f g
  show ?thesis by simp
qed




subsection \<open>Subscribe\<close>



lemma sample_config_fields:
  "SubscribersCount (config sample_subscriber) = 3"
  "QueueGroup (config sample_subscriber) = ''workers''"
  "SubjectCalculator (config sample_subscriber) = Some DefaultSubjectCalculator"
  "JetStream (config sample_subscriber) =
     \<lparr>Enabled = False, AutoProvision = False, ConnectOptions = []\<rparr>"
  by (simp_all add: sample_subscriber_def setDefaults_fields workers_config_def
        zero_config_def)

text \<open>A run of \<^verbatim>\<open>Subscribe\<close> in which the broker accepts all three subscribers: three
  watchers and, last, the finisher.\<close>

lemma Subscribe_sample_run:
  "trace_of (Subscribe quiet_world sample_subscriber ''orders'') =
     [MakeOutput, OutputsWgAdd,
      OutputWgAdd, Log Debug ''Starting subscriber'',
      QueueSubscribe ''orders.*'' ''workers'' 0, Go (Watcher (Subscription 0)),
      OutputWgAdd, Log Debug ''Starting subscriber'',
      QueueSubscribe ''orders.*'' ''workers'' 1, Go (Watcher (Subscription 1)),
      OutputWgAdd, Log Debug ''Starting subscriber'',
      QueueSubscribe ''orders.*'' ''workers'' 2, Go (Watcher (Subscription 2)),
      Go Finisher] \<and>
   result_of (Subscribe quiet_world sample_subscriber ''orders'') = Ok Output"
  by (simp add: Subscribe_def Subscribe_loop.simps subscribe_def sample_config_fields
        DefaultSubjectCalculator_def quiet_world_def Let_def)

text \<open>\<^verbatim>\<open>Unsubscribe\<close> is called by the watcher of a native subscription, once it has been
  released by \<^verbatim>\<open>closing\<close> or by the context.\<close>

lemma watcher_unsubscribes:
  "filter is_Unsubscribe (watcher w sub) = [Unsubscribe sub]"
  by (simp add: watcher_def split: option.splits)



end
